theory Spec2Isabelle
  imports Complex_Main "HOL-Library.Sublist"
begin

section \<open>Sweety Stash: the budget and streak engine of streamlit\_app.py\<close>

text \<open>
  The functions of \<^verbatim>\<open>src/streamlit_app.py\<close> that compute on the ledger document
  (\<^verbatim>\<open>st.session_state.app_data\<close>) are embedded as HOL functions. The ledger is
  a Python dict mutated in place; here every function takes the ledger and returns the
  updated one next to its return value. The wall clock (\<^verbatim>\<open>datetime.now()\<close>) is
  an explicit parameter \<open>now\<close>. Saving the document (\<^verbatim>\<open>_save_data\<close>) and the
  toasts do not change the ledger and are left out.
\<close>

subsection \<open>Calendar dates\<close>

text \<open>
  The code stores a date as the string \<^verbatim>\<open>strftime("%Y-%m-%d")\<close> and compares such
  strings for equality; it parses them back and subtracts dates to count days. A date is
  modelled by its proleptic Gregorian ordinal (Python's \<^verbatim>\<open>date.toordinal()\<close>, day 1
  is 0001-01-01): two dates are equal exactly when their strings are, and the number of
  days between two dates is the difference of the ordinals. The two conversions below
  follow \<^verbatim>\<open>_ymd2ord\<close> and \<^verbatim>\<open>_ord2ymd\<close> of Python's datetime module.
\<close>

type_synonym date = int

definition is_leap :: "int \<Rightarrow> bool" where
  "is_leap y = (y mod 4 = 0 \<and> (y mod 100 \<noteq> 0 \<or> y mod 400 = 0))"

definition days_before_year :: "int \<Rightarrow> int" where
  "days_before_year year =
     (let y = year - 1 in y * 365 + y div 4 - y div 100 + y div 400)"

definition DAYS_IN_MONTH :: "int \<Rightarrow> int" where
  "DAYS_IN_MONTH m =
     (if m = 2 then 28
      else if m = 4 \<or> m = 6 \<or> m = 9 \<or> m = 11 then 30
      else 31)"

definition DAYS_BEFORE_MONTH :: "int \<Rightarrow> int" where
  "DAYS_BEFORE_MONTH m =
     (if m = 1 then 0 else if m = 2 then 31 else if m = 3 then 59
      else if m = 4 then 90 else if m = 5 then 120 else if m = 6 then 151
      else if m = 7 then 181 else if m = 8 then 212 else if m = 9 then 243
      else if m = 10 then 273 else if m = 11 then 304 else 334)"

definition days_before_month :: "int \<Rightarrow> int \<Rightarrow> int" where
  "days_before_month year m =
     DAYS_BEFORE_MONTH m + (if m > 2 \<and> is_leap year then 1 else 0)"

definition ymd2ord :: "int \<Rightarrow> int \<Rightarrow> int \<Rightarrow> date" where
  "ymd2ord year m d = days_before_year year + days_before_month year m + d"

definition ord2ymd :: "date \<Rightarrow> int \<times> int \<times> int" where
  "ord2ymd ordinal =
     (let n0 = ordinal - 1;
          n400 = n0 div 146097; n1r = n0 mod 146097;
          n100 = n1r div 36524; n2r = n1r mod 36524;
          n4 = n2r div 1461; n3r = n2r mod 1461;
          n1 = n3r div 365; n = n3r mod 365;
          year = n400 * 400 + 1 + n100 * 100 + n4 * 4 + n1
      in if n1 = 4 \<or> n100 = 4 then (year - 1, 12, 31)
         else
           let leapyear = (n1 = 3 \<and> (n4 \<noteq> 24 \<or> n100 = 3));
               m = (n + 50) div 32;
               preceding = DAYS_BEFORE_MONTH m + (if m > 2 \<and> leapyear then 1 else 0)
           in if preceding > n
              then let m' = m - 1;
                       preceding' = preceding -
                         (DAYS_IN_MONTH m' + (if m' = 2 \<and> leapyear then 1 else 0))
                   in (year, m', n - preceding' + 1)
              else (year, m, n - preceding + 1))"

definition year_month :: "date \<Rightarrow> int \<times> int" where
  \<comment> \<open>\<^verbatim>\<open>strftime("%Y-%m")\<close>\<close>
  "year_month dt = (case ord2ymd dt of (y, m, d) \<Rightarrow> (y, m))"

definition day_of :: "date \<Rightarrow> int" where
  "day_of dt = (case ord2ymd dt of (y, m, d) \<Rightarrow> d)"

definition replace_day :: "date \<Rightarrow> int \<Rightarrow> date" where
  \<comment> \<open>\<^verbatim>\<open>now.replace(day=k)\<close>\<close>
  "replace_day dt k = (case ord2ymd dt of (y, m, d) \<Rightarrow> ymd2ord y m k)"

subsection \<open>The ledger document\<close>

record expense =
  date :: date
  amount :: rat
  category :: string
  description :: string
  is_big_purchase :: bool

text \<open>
  The keys that \<^verbatim>\<open>_initialize_defaults\<close> sets. Amounts are Python floats; they are
  modelled as exact rationals. \<^verbatim>\<open>None\<close> is \<open>None\<close>. The dict
  \<^verbatim>\<open>fixed_expenses\<close> is an association list, of which the code only sums the values.
\<close>

record ledger =
  monthly_income :: rat
  monthly_savings_goal :: rat
  fixed_expenses :: "(string \<times> rat) list"
  daily_expenses :: "expense list"
  extra_goals :: "(string \<times> rat \<times> rat) list"
  pet_name :: string
  saving_streak :: int
  last_streak_date :: "date option"
  daily_treat_given :: bool
  last_treat_date :: "date option"
  rewards_unlocked :: "string list"

record financials =
  fin_monthly_income :: rat
  fixed_expenses_sum :: rat
  target_saving :: rat
  daily_allowance :: rat
  todays_expenses :: rat
  todays_savings :: rat
  total_spent_month :: rat
  daily_used_percent :: rat
  remaining_days :: int

subsection \<open>get\_financial\_summary\<close>

definition remaining_days_of :: "date \<Rightarrow> int" where
  "remaining_days_of now =
     (let next_month = replace_day now 28 + 4;
          last_day = next_month - day_of next_month
      in max 1 (last_day - now + 1))"

definition disposable_of :: "ledger \<Rightarrow> rat" where
  \<comment> \<open>the local \<^verbatim>\<open>disposable = income - fixed - goal\<close>\<close>
  "disposable_of data =
     monthly_income data - sum_list (map snd (fixed_expenses data)) - monthly_savings_goal data"

definition get_financial_summary :: "date \<Rightarrow> ledger \<Rightarrow> financials" where
  "get_financial_summary now data =
     (let income = monthly_income data;
          fixed = sum_list (map snd (fixed_expenses data));
          goal = monthly_savings_goal data;
          today = now;
          current_month = year_month now;
          df = daily_expenses data;
          total_spent =
            (if df = [] then 0
             else sum_list (map amount
                    (filter (\<lambda>e. \<not> is_big_purchase e)
                       (filter (\<lambda>e. year_month (date e) = current_month) df))));
          todays_spent =
            (if df = [] then 0
             else sum_list (map amount
                    (filter (\<lambda>e. \<not> is_big_purchase e)
                       (filter (\<lambda>e. date e = today) df))));
          rem_days = remaining_days_of now;
          disposable = disposable_of data;
          allowance = (if rem_days > 0 then max 0 (disposable / of_int rem_days) else 0);
          savings = allowance - todays_spent;
          used_percent =
            (if allowance > 0 then min 100 ((todays_spent / allowance) * 100) else 0)
      in \<lparr> fin_monthly_income = income,
           fixed_expenses_sum = fixed,
           target_saving = goal,
           daily_allowance = allowance,
           todays_expenses = todays_spent,
           todays_savings = savings,
           total_spent_month = total_spent,
           daily_used_percent = used_percent,
           remaining_days = rem_days \<rparr>)"

subsection \<open>check\_daily\_reset, update\_streak, check\_rewards\<close>

definition check_daily_reset :: "date \<Rightarrow> ledger \<Rightarrow> bool \<times> ledger" where
  "check_daily_reset now data =
     (let today = now
      in if last_treat_date data \<noteq> Some today
         then (True, data\<lparr>daily_treat_given := False, last_treat_date := Some today\<rparr>)
         else (False, data))"

text \<open>
  \<^verbatim>\<open>update_streak\<close>. When the stored date is neither today, nor one day back, nor
  more than one day back (it lies after today), neither assignment to the streak runs
  and only \<^verbatim>\<open>last_streak_date\<close> is stamped.
\<close>

definition update_streak :: "date \<Rightarrow> rat \<Rightarrow> ledger \<Rightarrow> int \<times> ledger" where
  "update_streak now savings data =
     (let today = now;
          last_date = last_streak_date data;
          data' =
            (if savings \<ge> 0 then
               (if last_date \<noteq> Some today then
                  (case last_date of
                     Some last_dt \<Rightarrow>
                       (if today - last_dt = 1
                        then data\<lparr>saving_streak := saving_streak data + 1\<rparr>
                        else if today - last_dt > 1
                        then data\<lparr>saving_streak := 1\<rparr>
                        else data)
                   | None \<Rightarrow> data\<lparr>saving_streak := 1\<rparr>)
                  \<lparr>last_streak_date := Some today\<rparr>
                else data)
             else data\<lparr>saving_streak := 0, last_streak_date := Some today\<rparr>)
      in (saving_streak data', data'))"

definition check_rewards :: "ledger \<Rightarrow> string option \<times> ledger" where
  "check_rewards data =
     (let streak_days = saving_streak data;
          rewards = rewards_unlocked data;
          new_reward = None;
          (rewards, new_reward) =
            (if streak_days \<ge> 7 \<and> ''Weekly Spa'' \<notin> set rewards
             then (rewards @ [''Weekly Spa''], Some ''Weekly Spa'')
             else (rewards, new_reward));
          (rewards, new_reward) =
            (if streak_days \<ge> 30 \<and> ''Monthly Vacation'' \<notin> set rewards
             then (rewards @ [''Monthly Vacation''], Some ''Monthly Vacation'')
             else (rewards, new_reward))
      in (new_reward, data\<lparr>rewards_unlocked := rewards\<rparr>))"

subsection \<open>get\_pet\_status\<close>

text \<open>
  The image is one of four emoji: U+1F431 (cat face), U+1F63A (grinning cat),
  U+1F63F (crying cat), U+1F63B (cat with heart eyes).
\<close>

datatype pet_image = CatFace | GrinningCat | CryingCat | HeartEyesCat

record pet_status =
  mood :: string
  message :: string
  image :: pet_image
  streak :: int

definition setup_msg :: string where
  "setup_msg = ''Please set up your budget first in the sidebar!''"

definition get_pet_status :: "ledger \<Rightarrow> financials \<Rightarrow> pet_status" where
  "get_pet_status data fin =
     (let savings = todays_savings fin;
          treat = daily_treat_given data;
          (m, i, msg) = (''Neutral'', CatFace, ''Waiting for updates...'');
          (m, i, msg) =
            (if fin_monthly_income fin = 0 then (m, i, setup_msg)
             else if savings \<ge> 0 \<and> todays_expenses fin > 0
             then (''Happy'', GrinningCat, ''Purrfect! On track today.'')
             else if savings < 0
             then (''Sad'', CryingCat, ''Careful! You'' @ [CHR 0x27] @ ''ve gone over budget.'')
             else (m, i, msg));
          (m, i, msg) =
            (if treat
             then (''Excited'', HeartEyesCat,
                   ''Yum! Treats make '' @ pet_name data @ '' happy! Keep saving!'')
             else (m, i, msg))
      in \<lparr> mood = m, message = msg, image = i, streak = saving_streak data \<rparr>)"

subsection \<open>The form callbacks\<close>

text \<open>
  A callback that calls \<^verbatim>\<open>st.error(...)\<close> and returns reports that error as a value:
  \<^item> \<open>ExpenseNotPositive\<close>: "Expense amount must be positive." (a validation error);
  \<^item> \<open>NegativeBudget\<close>: "Income and savings goal cannot be negative.";
  \<^item> \<open>FixedExceedIncome\<close>: "Total fixed expenses exceed your monthly income!";
  \<^item> \<open>AlreadyTreatedToday\<close>: "... already got a treat today!";
  \<^item> \<open>OverBudget\<close>: "You need to be on budget (or below) to give ... a treat!".
  The second component is the ledger as the callback leaves it.
\<close>

datatype error =
  ExpenseNotPositive | NegativeBudget | FixedExceedIncome | AlreadyTreatedToday | OverBudget

definition log_expense_callback ::
  "date \<Rightarrow> rat \<Rightarrow> string \<Rightarrow> string \<Rightarrow> bool \<Rightarrow> ledger \<Rightarrow> (error + string option) \<times> ledger" where
  "log_expense_callback now amt cat descr big data =
     (if amt \<le> 0 then (Inl ExpenseNotPositive, data)
      else
        let transaction = \<lparr> date = now, amount = amt, category = cat,
                            description = descr, is_big_purchase = big \<rparr>;
            data1 = data\<lparr>daily_expenses := daily_expenses data @ [transaction]\<rparr>;
            fin = get_financial_summary now data1;
            (s, data2) = update_streak now (todays_savings fin) data1;
            (new_reward, data3) = check_rewards data2
        in (Inr new_reward, data3))"

definition update_budget_callback ::
  "rat \<Rightarrow> rat \<Rightarrow> (string \<times> rat) list \<Rightarrow> ledger \<Rightarrow> (error + unit) \<times> ledger" where
  "update_budget_callback income goal fixed data =
     (if income < 0 \<or> goal < 0 then (Inl NegativeBudget, data)
      else if sum_list (map snd fixed) > income then (Inl FixedExceedIncome, data)
      else (Inr (),
            data\<lparr>monthly_income := income, monthly_savings_goal := goal,
                 fixed_expenses := fixed\<rparr>))"

definition give_treat_callback :: "date \<Rightarrow> ledger \<Rightarrow> (error + unit) \<times> ledger" where
  "give_treat_callback now data =
     (if daily_treat_given data then (Inl AlreadyTreatedToday, data)
      else
        let fin = get_financial_summary now data
        in if todays_savings fin \<ge> 0
           then (Inr (), data\<lparr>daily_treat_given := True, last_treat_date := Some now\<rparr>)
           else (Inl OverBudget, data))"

text \<open>The ledger part of one run of \<^verbatim>\<open>main\<close>, before anything is drawn.\<close>

definition main_tick :: "date \<Rightarrow> ledger \<Rightarrow> pet_status \<times> ledger" where
  "main_tick now data =
     (let (changed, data1) = check_daily_reset now data;
          fin = get_financial_summary now data1;
          status = get_pet_status data1 fin;
          (s, data2) = update_streak now (todays_savings fin) data1;
          (r, data3) = check_rewards data2
      in (status, data3))"

subsection \<open>Sequences of operations\<close>

text \<open>
  The functions that change the ledger, as one datatype, and a run of them from left to
  right. Each keeps only the ledger its function leaves behind.
\<close>

datatype operation =
    UpdateStreak date rat
  | CheckRewards
  | LogExpense date rat string string bool
  | UpdateBudget rat rat "(string \<times> rat) list"
  | GiveTreat date
  | DailyReset date
  | MainTick date

fun apply_operation :: "operation \<Rightarrow> ledger \<Rightarrow> ledger" where
  "apply_operation (UpdateStreak now s) d = snd (update_streak now s d)"
| "apply_operation CheckRewards d = snd (check_rewards d)"
| "apply_operation (LogExpense now amt cat descr big) d =
     snd (log_expense_callback now amt cat descr big d)"
| "apply_operation (UpdateBudget income goal fixed) d =
     snd (update_budget_callback income goal fixed d)"
| "apply_operation (GiveTreat now) d = snd (give_treat_callback now d)"
| "apply_operation (DailyReset now) d = snd (check_daily_reset now d)"
| "apply_operation (MainTick now) d = snd (main_tick now d)"

fun run_operations :: "operation list \<Rightarrow> ledger \<Rightarrow> ledger" where
  "run_operations [] d = d"
| "run_operations (x # xs) d = run_operations xs (apply_operation x d)"

subsection \<open>Concrete ledgers and dates\<close>

text \<open>The document that \<^verbatim>\<open>_initialize_defaults\<close> builds when no file exists.\<close>

definition default_ledger :: ledger where
  "default_ledger =
     \<lparr> monthly_income = 0, monthly_savings_goal = 0, fixed_expenses = [],
       daily_expenses = [], extra_goals = [], pet_name = ''Sweety'', saving_streak = 0,
       last_streak_date = None, daily_treat_given = False, last_treat_date = None,
       rewards_unlocked = [] \<rparr>"

definition april_first :: date where
  \<comment> \<open>2024-04-01, the first day of a month of 30 days\<close>
  "april_first = ymd2ord 2024 4 1"

definition scenario_ledger :: ledger where
  "scenario_ledger =
     default_ledger\<lparr>monthly_income := 3000, fixed_expenses := [(''Rent'', 1000)],
                    monthly_savings_goal := 500\<rparr>"

definition overspent_ledger :: ledger where
  "overspent_ledger =
     scenario_ledger\<lparr>daily_expenses :=
       [\<lparr> date = april_first, amount = 80, category = ''Food'', description = [],
          is_big_purchase = False \<rparr>]\<rparr>"

definition treated_ledger :: ledger where
  "treated_ledger = snd (give_treat_callback april_first default_ledger)"

definition treated_scenario_ledger :: ledger where
  "treated_scenario_ledger = snd (give_treat_callback april_first scenario_ledger)"

definition jumped_ledger :: ledger where
  "jumped_ledger = default_ledger\<lparr>saving_streak := 30\<rparr>"

definition both_ledger :: ledger where
  "both_ledger = default_ledger\<lparr>saving_streak := 31\<rparr>"

definition spa_ledger :: ledger where
  "spa_ledger = default_ledger\<lparr>saving_streak := 7, rewards_unlocked := [''Weekly Spa'']\<rparr>"

definition streak10_ledger :: ledger where
  "streak10_ledger =
     scenario_ledger\<lparr>saving_streak := 10, last_streak_date := Some (ymd2ord 2024 3 29)\<rparr>"

section \<open>Properties\<close>

subsection \<open>What each function leaves alone\<close>

lemma update_streak_neg:
  "s < 0 \<Longrightarrow>
   update_streak now s d = (0, d\<lparr>saving_streak := 0, last_streak_date := Some now\<rparr>)"
  by (simp add: update_streak_def)

lemma update_streak_same_day:
  "0 \<le> s \<Longrightarrow> last_streak_date d = Some now \<Longrightarrow> update_streak now s d = (saving_streak d, d)"
  by (simp add: update_streak_def)

lemma update_streak_stamps:
  "last_streak_date (snd (update_streak now s d)) = Some now"
  by (simp add: update_streak_def Let_def split: option.split)

lemma update_streak_fst:
  "fst (update_streak now s d) = saving_streak (snd (update_streak now s d))"
  by (simp add: update_streak_def Let_def)

lemma update_streak_keeps:
  "monthly_income (snd (update_streak now s d)) = monthly_income d"
  "fixed_expenses (snd (update_streak now s d)) = fixed_expenses d"
  "monthly_savings_goal (snd (update_streak now s d)) = monthly_savings_goal d"
  "daily_expenses (snd (update_streak now s d)) = daily_expenses d"
  "daily_treat_given (snd (update_streak now s d)) = daily_treat_given d"
  "last_treat_date (snd (update_streak now s d)) = last_treat_date d"
  "rewards_unlocked (snd (update_streak now s d)) = rewards_unlocked d"
  by (simp_all add: update_streak_def Let_def split: option.split)

lemma check_rewards_cases:
  "rewards_unlocked (snd (check_rewards d)) = rewards_unlocked d @
     (if saving_streak d \<ge> 7 \<and> ''Weekly Spa'' \<notin> set (rewards_unlocked d)
      then [''Weekly Spa''] else []) @
     (if saving_streak d \<ge> 30 \<and> ''Monthly Vacation'' \<notin> set (rewards_unlocked d)
      then [''Monthly Vacation''] else [])"
  by (auto simp: check_rewards_def Let_def)

lemma check_rewards_fst:
  "fst (check_rewards d) =
     (if saving_streak d \<ge> 30 \<and> ''Monthly Vacation'' \<notin> set (rewards_unlocked d)
      then Some ''Monthly Vacation''
      else if saving_streak d \<ge> 7 \<and> ''Weekly Spa'' \<notin> set (rewards_unlocked d)
      then Some ''Weekly Spa''
      else None)"
  by (auto simp: check_rewards_def Let_def)

lemma check_rewards_keeps:
  "monthly_income (snd (check_rewards d)) = monthly_income d"
  "fixed_expenses (snd (check_rewards d)) = fixed_expenses d"
  "monthly_savings_goal (snd (check_rewards d)) = monthly_savings_goal d"
  "daily_expenses (snd (check_rewards d)) = daily_expenses d"
  "daily_treat_given (snd (check_rewards d)) = daily_treat_given d"
  "last_treat_date (snd (check_rewards d)) = last_treat_date d"
  by (simp_all add: check_rewards_def Let_def split: prod.split)

lemma check_rewards_prefix:
  "prefix (rewards_unlocked d) (rewards_unlocked (snd (check_rewards d)))"
  by (simp add: check_rewards_cases)

lemma check_rewards_distinct:
  "distinct (rewards_unlocked d) \<Longrightarrow> distinct (rewards_unlocked (snd (check_rewards d)))"
  by (auto simp: check_rewards_cases)

lemma check_daily_reset_rewards:
  "rewards_unlocked (snd (check_daily_reset now d)) = rewards_unlocked d"
  by (simp add: check_daily_reset_def)

lemma give_treat_rewards:
  "rewards_unlocked (snd (give_treat_callback now d)) = rewards_unlocked d"
  by (simp add: give_treat_callback_def Let_def)

lemma update_budget_rewards:
  "rewards_unlocked (snd (update_budget_callback i g f d)) = rewards_unlocked d"
  by (simp add: update_budget_callback_def)

subsection \<open>The summary, field by field\<close>

lemma summary_fields:
  assumes "monthly_income d' = monthly_income d"
    and "fixed_expenses d' = fixed_expenses d"
    and "monthly_savings_goal d' = monthly_savings_goal d"
    and "daily_expenses d' = daily_expenses d"
  shows "get_financial_summary now d' = get_financial_summary now d"
  using assms by (simp add: get_financial_summary_def disposable_of_def)

lemma fin_income: "fin_monthly_income (get_financial_summary now d) = monthly_income d"
  by (simp add: get_financial_summary_def Let_def)

lemma todays_expenses_eq:
  "todays_expenses (get_financial_summary now d) =
     sum_list (map amount (filter (\<lambda>e. \<not> is_big_purchase e)
       (filter (\<lambda>e. date e = now) (daily_expenses d))))"
  by (simp add: get_financial_summary_def Let_def)

lemma daily_allowance_eq:
  "daily_allowance (get_financial_summary now d) =
     (if remaining_days_of now > 0
      then max 0 (disposable_of d / of_int (remaining_days_of now)) else 0)"
  by (simp add: get_financial_summary_def Let_def)

lemma todays_savings_eq:
  "todays_savings (get_financial_summary now d) =
     daily_allowance (get_financial_summary now d) - todays_expenses (get_financial_summary now d)"
  by (simp add: get_financial_summary_def Let_def)

lemma daily_used_percent_eq:
  "daily_used_percent (get_financial_summary now d) =
     (if daily_allowance (get_financial_summary now d) > 0
      then min 100 ((todays_expenses (get_financial_summary now d) /
                     daily_allowance (get_financial_summary now d)) * 100)
      else 0)"
  by (simp add: get_financial_summary_def Let_def)

subsection \<open>The callbacks, unfolded\<close>

lemma log_expense_accept:
  "0 < amt \<Longrightarrow>
   snd (log_expense_callback now amt cat descr big d) =
     snd (check_rewards (snd (update_streak now
       (todays_savings (get_financial_summary now
          (d\<lparr>daily_expenses := daily_expenses d @
             [\<lparr> date = now, amount = amt, category = cat, description = descr,
                is_big_purchase = big \<rparr>]\<rparr>)))
       (d\<lparr>daily_expenses := daily_expenses d @
             [\<lparr> date = now, amount = amt, category = cat, description = descr,
                is_big_purchase = big \<rparr>]\<rparr>))))"
  by (simp add: log_expense_callback_def Let_def split: prod.split)

lemma log_expense_summary:
  assumes "0 < amt"
  shows "get_financial_summary now (snd (log_expense_callback now amt cat descr big d)) =
         get_financial_summary now (d\<lparr>daily_expenses := daily_expenses d @
             [\<lparr> date = now, amount = amt, category = cat, description = descr,
                is_big_purchase = big \<rparr>]\<rparr>)"
  unfolding log_expense_accept [OF assms]
  by (rule summary_fields) (simp_all add: check_rewards_keeps update_streak_keeps)

lemma log_expense_treat:
  "daily_treat_given (snd (log_expense_callback now amt cat descr big d)) = daily_treat_given d"
proof (cases "amt \<le> 0")
  case True
  then show ?thesis by (simp add: log_expense_callback_def)
next
  case False
  then have "0 < amt" by simp
  then show ?thesis
    by (simp add: log_expense_accept check_rewards_keeps update_streak_keeps)
qed

lemma main_tick_snd:
  "snd (main_tick now d) =
     snd (check_rewards (snd (update_streak now
       (todays_savings (get_financial_summary now (snd (check_daily_reset now d))))
       (snd (check_daily_reset now d)))))"
  by (simp add: main_tick_def Let_def split: prod.split)

lemma get_pet_status_zero:
  assumes "fin_monthly_income fin = 0"
  shows "get_pet_status data fin =
     (if daily_treat_given data
      then \<lparr> mood = ''Excited'',
             message = ''Yum! Treats make '' @ pet_name data @ '' happy! Keep saving!'',
             image = HeartEyesCat, streak = saving_streak data \<rparr>
      else \<lparr> mood = ''Neutral'', message = setup_msg, image = CatFace,
             streak = saving_streak data \<rparr>)"
  using assms by (simp add: get_pet_status_def)

lemma get_pet_status_treat:
  assumes "daily_treat_given data"
  shows "get_pet_status data fin =
     \<lparr> mood = ''Excited'',
       message = ''Yum! Treats make '' @ pet_name data @ '' happy! Keep saving!'',
       image = HeartEyesCat, streak = saving_streak data \<rparr>"
  using assms by (simp add: get_pet_status_def)

lemma get_pet_status_happy:
  assumes "fin_monthly_income fin \<noteq> 0" "0 \<le> todays_savings fin" "0 < todays_expenses fin"
    "\<not> daily_treat_given data"
  shows "mood (get_pet_status data fin) = ''Happy''"
  using assms by (simp add: get_pet_status_def)

subsection \<open>One operation and the list of rewards\<close>

text \<open>
  Every operation either leaves \<^verbatim>\<open>rewards_unlocked\<close> as it was, or ends in
  \<^verbatim>\<open>check_rewards\<close> on a ledger holding the same list.
\<close>

lemma apply_operation_rewards:
  "rewards_unlocked (apply_operation x d) = rewards_unlocked d \<or>
   (\<exists>e. rewards_unlocked e = rewards_unlocked d \<and> apply_operation x d = snd (check_rewards e))"
proof (cases x)
  case (UpdateStreak now s)
  then show ?thesis by (simp add: update_streak_keeps)
next
  case CheckRewards
  then show ?thesis by auto
next
  case (LogExpense now amt cat descr big)
  show ?thesis
  proof (cases "amt \<le> 0")
    case True
    then show ?thesis using LogExpense by (simp add: log_expense_callback_def)
  next
    case False
    then have pos: "0 < amt" by simp
    have "rewards_unlocked (snd (update_streak now
       (todays_savings (get_financial_summary now
          (d\<lparr>daily_expenses := daily_expenses d @
             [\<lparr> date = now, amount = amt, category = cat, description = descr,
                is_big_purchase = big \<rparr>]\<rparr>)))
       (d\<lparr>daily_expenses := daily_expenses d @
             [\<lparr> date = now, amount = amt, category = cat, description = descr,
                is_big_purchase = big \<rparr>]\<rparr>))) = rewards_unlocked d"
      by (simp add: update_streak_keeps)
    then show ?thesis
      unfolding LogExpense apply_operation.simps log_expense_accept [OF pos]
      by blast
  qed
next
  case (UpdateBudget i g f)
  then show ?thesis by (simp add: update_budget_rewards)
next
  case (GiveTreat now)
  then show ?thesis by (simp add: give_treat_rewards)
next
  case (DailyReset now)
  then show ?thesis by (simp add: check_daily_reset_rewards)
next
  case (MainTick now)
  have "rewards_unlocked (snd (update_streak now
       (todays_savings (get_financial_summary now (snd (check_daily_reset now d))))
       (snd (check_daily_reset now d)))) = rewards_unlocked d"
    by (simp add: update_streak_keeps check_daily_reset_rewards)
  then show ?thesis unfolding MainTick apply_operation.simps main_tick_snd
    by blast
qed

lemma apply_operation_prefix:
  "prefix (rewards_unlocked d) (rewards_unlocked (apply_operation x d))"
  using apply_operation_rewards [of x d] check_rewards_prefix
  by (metis prefix_order.order_refl)

lemma apply_operation_distinct:
  "distinct (rewards_unlocked d) \<Longrightarrow> distinct (rewards_unlocked (apply_operation x d))"
  using apply_operation_rewards [of x d] check_rewards_distinct
  by metis

lemma run_prefix:
  "prefix (rewards_unlocked d) (rewards_unlocked (run_operations ops d))"
proof (induction ops arbitrary: d)
  case Nil
  show ?case by simp
next
  case (Cons x xs)
  have "prefix (rewards_unlocked d) (rewards_unlocked (apply_operation x d))"
    by (rule apply_operation_prefix)
  also have "prefix \<dots> (rewards_unlocked (run_operations xs (apply_operation x d)))"
    by (rule Cons.IH)
  finally show ?case by simp
qed

lemma run_distinct:
  "distinct (rewards_unlocked d) \<Longrightarrow> distinct (rewards_unlocked (run_operations ops d))"
proof (induction ops arbitrary: d)
  case Nil
  then show ?case by simp
next
  case (Cons x xs)
  from Cons.prems have "distinct (rewards_unlocked (apply_operation x d))"
    by (rule apply_operation_distinct)
  then show ?case by (simp add: Cons.IH)
qed

subsection \<open>Concrete values\<close>

lemma rem_april: "remaining_days_of april_first = 30"
  by code_simp

lemma gap3: "april_first - ymd2ord 2024 3 29 = 3"
  by code_simp

lemma overspent_savings:
  "todays_savings (get_financial_summary april_first overspent_ledger) = - 30"
  by code_simp

lemma scenario_treat_ok: "fst (give_treat_callback april_first scenario_ledger) = Inr ()"
  by code_simp

lemma scenario_treat_given:
  "daily_treat_given (snd (give_treat_callback april_first scenario_ledger))"
  by code_simp

lemma treated_scenario_facts:
  "daily_treat_given treated_scenario_ledger"
  "monthly_income treated_scenario_ledger = 3000"
  "pet_name treated_scenario_ledger = ''Sweety''"
  "saving_streak treated_scenario_ledger = 0"
  by code_simp+

section \<open>The claims\<close>

subsection \<open>Pet mood when no budget is set\<close>

text \<open>
  C1 (as amended). The code has no mood named Unconfigured: with
  \<^verbatim>\<open>monthly_income == 0\<close> the first branch keeps the mood "Neutral" and the cat face
  and sets the set-up-your-budget message, and this is the unconfigured status. The
  treat test is a separate \<^verbatim>\<open>if\<close> after the chain, so it overrides every branch
  of the chain. When a treat was given today the status is the Excited one for every
  summary, whatever the income is: the treat rule has the highest precedence. When no
  treat was given today and the income is 0 the status is the unconfigured one. So for
  every ledger with \<^verbatim>\<open>monthly_income = 0\<close> the status of its own summary is the
  unconfigured one exactly when no treat was given today. The witness has the
  unconfigured status on the default ledger and the Excited status on a ledger with
  income 3000 after a treat.
\<close>

theorem get_pet_status_treat_first:
  "(daily_treat_given data \<longrightarrow>
      get_pet_status data fin =
        \<lparr> mood = ''Excited'',
          message = ''Yum! Treats make '' @ pet_name data @ '' happy! Keep saving!'',
          image = HeartEyesCat, streak = saving_streak data \<rparr>) \<and>
   (\<not> daily_treat_given data \<and> fin_monthly_income fin = 0 \<longrightarrow>
      get_pet_status data fin =
        \<lparr> mood = ''Neutral'', message = setup_msg, image = CatFace,
          streak = saving_streak data \<rparr>) \<and>
   (monthly_income data = 0 \<longrightarrow>
      get_pet_status data (get_financial_summary now data) =
        (if daily_treat_given data
         then \<lparr> mood = ''Excited'',
                message = ''Yum! Treats make '' @ pet_name data @ '' happy! Keep saving!'',
                image = HeartEyesCat, streak = saving_streak data \<rparr>
         else \<lparr> mood = ''Neutral'', message = setup_msg, image = CatFace,
                streak = saving_streak data \<rparr>))"
proof (intro conjI impI)
  assume "daily_treat_given data"
  then show "get_pet_status data fin =
        \<lparr> mood = ''Excited'',
          message = ''Yum! Treats make '' @ pet_name data @ '' happy! Keep saving!'',
          image = HeartEyesCat, streak = saving_streak data \<rparr>"
    by (rule get_pet_status_treat)
next
  assume "\<not> daily_treat_given data \<and> fin_monthly_income fin = 0"
  then show "get_pet_status data fin =
        \<lparr> mood = ''Neutral'', message = setup_msg, image = CatFace,
          streak = saving_streak data \<rparr>"
    by (simp add: get_pet_status_zero)
next
  assume "monthly_income data = 0"
  then have "fin_monthly_income (get_financial_summary now data) = 0"
    by (simp add: fin_income)
  then show "get_pet_status data (get_financial_summary now data) =
        (if daily_treat_given data
         then \<lparr> mood = ''Excited'',
                message = ''Yum! Treats make '' @ pet_name data @ '' happy! Keep saving!'',
                image = HeartEyesCat, streak = saving_streak data \<rparr>
         else \<lparr> mood = ''Neutral'', message = setup_msg, image = CatFace,
                streak = saving_streak data \<rparr>)"
    by (rule get_pet_status_zero)
qed

theorem get_pet_status_treat_first_witness:
  "monthly_income default_ledger = 0 \<and>
   get_pet_status default_ledger (get_financial_summary april_first default_ledger) =
     \<lparr> mood = ''Neutral'', message = ''Please set up your budget first in the sidebar!'',
       image = CatFace, streak = 0 \<rparr> \<and>
   monthly_income treated_scenario_ledger = 3000 \<and>
   daily_treat_given treated_scenario_ledger \<and>
   get_pet_status treated_scenario_ledger
       (get_financial_summary april_first treated_scenario_ledger) =
     \<lparr> mood = ''Excited'', message = ''Yum! Treats make Sweety happy! Keep saving!'',
       image = HeartEyesCat, streak = 0 \<rparr>"
proof -
  have z: "monthly_income default_ledger = 0" "\<not> daily_treat_given default_ledger"
    "saving_streak default_ledger = 0"
    by (simp_all add: default_ledger_def)
  have a: "get_pet_status default_ledger (get_financial_summary april_first default_ledger) =
     \<lparr> mood = ''Neutral'', message = ''Please set up your budget first in the sidebar!'',
       image = CatFace, streak = 0 \<rparr>"
    using get_pet_status_treat_first
      [of default_ledger "get_financial_summary april_first default_ledger" april_first] z
    by (simp add: setup_msg_def)
  have b: "get_pet_status treated_scenario_ledger
       (get_financial_summary april_first treated_scenario_ledger) =
     \<lparr> mood = ''Excited'', message = ''Yum! Treats make Sweety happy! Keep saving!'',
       image = HeartEyesCat, streak = 0 \<rparr>"
    using get_pet_status_treat_first
      [of treated_scenario_ledger
          "get_financial_summary april_first treated_scenario_ledger" april_first]
      treated_scenario_facts
    by simp
  from a b z treated_scenario_facts show ?thesis by simp
qed

text \<open>
  C1 as stated fails. On the default ledger (income 0, nothing spent) today's savings
  are 0, so \<^verbatim>\<open>give_treat_callback\<close> succeeds; on the ledger it leaves, the income
  is still 0 and the status is the Excited one with the treat message, not the
  unconfigured one.
\<close>

theorem income_zero_treat_counterexample:
  "fst (give_treat_callback april_first default_ledger) = Inr () \<and>
   monthly_income treated_ledger = 0 \<and>
   get_pet_status treated_ledger (get_financial_summary april_first treated_ledger) =
     \<lparr> mood = ''Excited'', message = ''Yum! Treats make Sweety happy! Keep saving!'',
       image = HeartEyesCat, streak = 0 \<rparr>"
  by code_simp

subsection \<open>The reward that check\_rewards reports\<close>

text \<open>
  C2 (as amended). A call to \<^verbatim>\<open>check_rewards\<close> reports at most one reward: nothing,
  "Weekly Spa" or "Monthly Vacation". When one call crosses both thresholds (streak at
  least 30, neither reward unlocked yet) the second \<^verbatim>\<open>if\<close> overwrites
  \<^verbatim>\<open>new_reward\<close>, so the reward reported is the last threshold crossed,
  "Monthly Vacation".
\<close>

theorem check_rewards_reports_last:
  "(fst (check_rewards d) = None \<or> fst (check_rewards d) = Some ''Weekly Spa'' \<or>
    fst (check_rewards d) = Some ''Monthly Vacation'') \<and>
   (30 \<le> saving_streak d \<and> ''Weekly Spa'' \<notin> set (rewards_unlocked d) \<and>
    ''Monthly Vacation'' \<notin> set (rewards_unlocked d)
    \<longrightarrow> fst (check_rewards d) = Some ''Monthly Vacation'')"
  by (simp add: check_rewards_fst)

theorem check_rewards_reports_last_witness:
  "fst (check_rewards jumped_ledger) = Some ''Monthly Vacation''"
proof -
  have "30 \<le> saving_streak jumped_ledger \<and>
        ''Weekly Spa'' \<notin> set (rewards_unlocked jumped_ledger) \<and>
        ''Monthly Vacation'' \<notin> set (rewards_unlocked jumped_ledger)"
    by (simp add: jumped_ledger_def default_ledger_def)
  with check_rewards_reports_last [of jumped_ledger] show ?thesis by blast
qed

text \<open>
  C2 as stated fails: with a streak of 30 and no reward unlocked, the reward reported is
  "Monthly Vacation" and not "Weekly Spa".
\<close>

theorem check_rewards_first_counterexample:
  "saving_streak jumped_ledger = 30 \<and> rewards_unlocked jumped_ledger = [] \<and>
   fst (check_rewards jumped_ledger) = Some ''Monthly Vacation'' \<and>
   fst (check_rewards jumped_ledger) \<noteq> Some ''Weekly Spa''"
  by (simp add: check_rewards_def jumped_ledger_def default_ledger_def)

subsection \<open>The streak tracker\<close>

text \<open>
  C3. \<^verbatim>\<open>update_streak\<close> is idempotent within a day: for every ledger, every date and
  every value of today's savings, a second call with the same date and savings returns
  the same streak and leaves the same ledger as the first call did.
\<close>

theorem update_streak_idempotent:
  "update_streak now s (snd (update_streak now s d)) = update_streak now s d"
proof (cases "s < 0")
  case True
  then show ?thesis by (simp add: update_streak_neg)
next
  case False
  then have s: "0 \<le> s" by simp
  have "update_streak now s (snd (update_streak now s d))
        = (saving_streak (snd (update_streak now s d)), snd (update_streak now s d))"
    using s update_streak_stamps by (rule update_streak_same_day)
  also have "\<dots> = update_streak now s d"
    by (simp add: update_streak_fst [symmetric])
  finally show ?thesis .
qed

text \<open>
  C4. If today's savings are negative, \<^verbatim>\<open>update_streak\<close> sets the streak to 0 and
  \<^verbatim>\<open>last_streak_date\<close> to today, whatever the streak and the date were before; it
  returns 0 and changes nothing else.
\<close>

theorem update_streak_negative:
  "s < 0 \<Longrightarrow>
   update_streak now s d = (0, d\<lparr>saving_streak := 0, last_streak_date := Some now\<rparr>)"
  by (simp add: update_streak_def)

theorem update_streak_negative_witness:
  "update_streak april_first (- 30) streak10_ledger =
     (0, streak10_ledger\<lparr>saving_streak := 0, last_streak_date := Some april_first\<rparr>)"
proof -
  have "(- 30 :: rat) < 0" by simp
  then show ?thesis by (rule update_streak_negative)
qed

text \<open>
  C5. If today's savings are not negative and \<^verbatim>\<open>last_streak_date\<close> is absent or
  more than one day before today, \<^verbatim>\<open>update_streak\<close> sets the streak to exactly 1 and
  \<^verbatim>\<open>last_streak_date\<close> to today. The witness is the spec's example: a streak of 10
  last counted three days ago becomes 1.
\<close>

theorem update_streak_gap:
  assumes "0 \<le> s"
    and "case last_streak_date d of None \<Rightarrow> True | Some last_dt \<Rightarrow> now - last_dt > 1"
  shows "update_streak now s d = (1, d\<lparr>saving_streak := 1, last_streak_date := Some now\<rparr>)"
  using assms by (auto simp: update_streak_def split: option.splits)

theorem update_streak_gap_witness:
  "saving_streak streak10_ledger = 10 \<and>
   last_streak_date streak10_ledger = Some (april_first - 3) \<and>
   update_streak april_first 5 streak10_ledger =
     (1, streak10_ledger\<lparr>saving_streak := 1, last_streak_date := Some april_first\<rparr>)"
proof -
  have l: "last_streak_date streak10_ledger = Some (april_first - 3)"
    using gap3 by (simp add: streak10_ledger_def)
  have s: "saving_streak streak10_ledger = 10"
    by (simp add: streak10_ledger_def)
  have h1: "(0::rat) \<le> 5" by simp
  have h2: "case last_streak_date streak10_ledger of None \<Rightarrow> True
            | Some last_dt \<Rightarrow> april_first - last_dt > 1"
    by (simp add: l)
  from update_streak_gap [OF h1 h2] l s show ?thesis by simp
qed

subsection \<open>Giving a treat\<close>

text \<open>
  C6. \<^verbatim>\<open>give_treat_callback\<close> succeeds exactly when no treat was given today and
  today's savings are not negative. When a treat was already given it fails with
  AlreadyTreatedToday (this test comes first); when none was given and the savings are
  negative it fails with OverBudget; with negative savings it never succeeds. Every
  failure is one of these two and leaves the ledger unchanged. After a success, a second
  call on the same day, directly or after the daily reset gate has run, fails with
  AlreadyTreatedToday and leaves the ledger of the first call.
\<close>

theorem give_treat_callback_outcomes:
  "(fst (give_treat_callback now d) = Inr () \<longleftrightarrow>
      \<not> daily_treat_given d \<and> 0 \<le> todays_savings (get_financial_summary now d)) \<and>
   (daily_treat_given d \<longrightarrow> give_treat_callback now d = (Inl AlreadyTreatedToday, d)) \<and>
   (\<not> daily_treat_given d \<and> todays_savings (get_financial_summary now d) < 0 \<longrightarrow>
      give_treat_callback now d = (Inl OverBudget, d)) \<and>
   (todays_savings (get_financial_summary now d) < 0 \<longrightarrow>
      fst (give_treat_callback now d) \<noteq> Inr ()) \<and>
   (\<forall>e. fst (give_treat_callback now d) = Inl e \<longrightarrow>
      (e = AlreadyTreatedToday \<or> e = OverBudget) \<and> snd (give_treat_callback now d) = d) \<and>
   (fst (give_treat_callback now d) = Inr () \<longrightarrow>
      give_treat_callback now (snd (give_treat_callback now d)) =
        (Inl AlreadyTreatedToday, snd (give_treat_callback now d)) \<and>
      give_treat_callback now (snd (check_daily_reset now (snd (give_treat_callback now d)))) =
        (Inl AlreadyTreatedToday, snd (give_treat_callback now d)))"
  by (auto simp: give_treat_callback_def check_daily_reset_def Let_def)

theorem give_treat_callback_outcomes_witness:
  "give_treat_callback april_first overspent_ledger = (Inl OverBudget, overspent_ledger) \<and>
   daily_treat_given (snd (give_treat_callback april_first scenario_ledger)) \<and>
   give_treat_callback april_first (snd (give_treat_callback april_first scenario_ledger)) =
     (Inl AlreadyTreatedToday, snd (give_treat_callback april_first scenario_ledger))"
proof -
  have a: "\<not> daily_treat_given overspent_ledger"
    by (simp add: overspent_ledger_def scenario_ledger_def default_ledger_def)
  have b: "todays_savings (get_financial_summary april_first overspent_ledger) < 0"
    by (simp add: overspent_savings)
  show ?thesis
    using give_treat_callback_outcomes [of april_first overspent_ledger]
      give_treat_callback_outcomes [of april_first scenario_ledger]
      a b scenario_treat_given scenario_treat_ok
    by simp
qed

subsection \<open>The list of unlocked rewards\<close>

text \<open>
  C7. Over every sequence of operations (streak updates, reward checks, expense logging,
  budget updates, treats, daily resets and runs of the main tick), the list
  \<^verbatim>\<open>rewards_unlocked\<close> only grows at its end: the list before is a prefix of the list
  after, so no element is ever removed, and a list without duplicates stays without
  duplicates. The witness keeps "Weekly Spa" while the streak drops to 0.
\<close>

theorem rewards_unlocked_monotone:
  "prefix (rewards_unlocked d) (rewards_unlocked (run_operations ops d)) \<and>
   set (rewards_unlocked d) \<subseteq> set (rewards_unlocked (run_operations ops d)) \<and>
   (distinct (rewards_unlocked d) \<longrightarrow> distinct (rewards_unlocked (run_operations ops d)))"
  using run_prefix [of d ops] run_distinct [of d ops] by (auto dest: set_mono_prefix)

theorem rewards_unlocked_monotone_witness:
  "saving_streak (run_operations [UpdateStreak april_first (- 1), CheckRewards] spa_ledger) = 0 \<and>
   ''Weekly Spa'' \<in> set (rewards_unlocked
      (run_operations [UpdateStreak april_first (- 1), CheckRewards] spa_ledger)) \<and>
   distinct (rewards_unlocked
      (run_operations [UpdateStreak april_first (- 1), CheckRewards] spa_ledger))"
proof -
  have s: "saving_streak
      (run_operations [UpdateStreak april_first (- 1), CheckRewards] spa_ledger) = 0"
    by (simp add: update_streak_def check_rewards_def spa_ledger_def default_ledger_def)
  have r: "rewards_unlocked spa_ledger = [''Weekly Spa'']"
    by (simp add: spa_ledger_def default_ledger_def)
  from rewards_unlocked_monotone [of spa_ledger "[UpdateStreak april_first (- 1), CheckRewards]"]
  show ?thesis using s r by auto
qed

subsection \<open>Logging an expense\<close>

text \<open>
  C8. \<^verbatim>\<open>log_expense_callback\<close> rejects every amount that is zero or negative with
  the validation error, and returns the ledger it was given: no expense is appended, and
  the streak, its date and the rewards are untouched.
\<close>

theorem log_expense_rejects:
  "amt \<le> 0 \<Longrightarrow> log_expense_callback now amt cat descr big d = (Inl ExpenseNotPositive, d)"
  by (simp add: log_expense_callback_def)

theorem log_expense_rejects_witness:
  "log_expense_callback april_first 0 ''Food'' [] False scenario_ledger =
     (Inl ExpenseNotPositive, scenario_ledger) \<and>
   log_expense_callback april_first (- 5) ''Food'' [] False scenario_ledger =
     (Inl ExpenseNotPositive, scenario_ledger)"
proof -
  have a: "(0::rat) \<le> 0" and b: "(- 5 :: rat) \<le> 0" by simp_all
  from log_expense_rejects [OF a] log_expense_rejects [OF b] show ?thesis by simp
qed

subsection \<open>The budget scenario\<close>

text \<open>
  C9. For a ledger with income 3000, fixed expenses Rent: 1000 and savings goal 500, on a
  day with 30 remaining days in the month, the disposable income is 1500 and the daily
  allowance 50. If nothing counted was spent today and no treat was given, then after
  logging one expense of 30 that is not a big purchase the summary gives 30 spent today,
  savings of 20 and 60 percent of the allowance used, and the mood is Happy.
\<close>

theorem scenario_allowance_and_happy:
  assumes inc: "monthly_income d = 3000"
    and fx: "fixed_expenses d = [(''Rent'', 1000)]"
    and gl: "monthly_savings_goal d = 500"
    and rem: "remaining_days_of now = 30"
    and none: "todays_expenses (get_financial_summary now d) = 0"
    and treat: "\<not> daily_treat_given d"
    and d': "d' = snd (log_expense_callback now 30 cat descr False d)"
  shows "disposable_of d = 1500 \<and>
         daily_allowance (get_financial_summary now d) = 50 \<and>
         todays_expenses (get_financial_summary now d') = 30 \<and>
         todays_savings (get_financial_summary now d') = 20 \<and>
         daily_used_percent (get_financial_summary now d') = 60 \<and>
         mood (get_pet_status d' (get_financial_summary now d')) = ''Happy''"
proof -
  let ?d1 = "d\<lparr>daily_expenses := daily_expenses d @
             [\<lparr> date = now, amount = 30, category = cat, description = descr,
                is_big_purchase = False \<rparr>]\<rparr>"
  have disp: "disposable_of d = 1500"
    by (simp add: disposable_of_def inc fx gl)
  have allow: "daily_allowance (get_financial_summary now d) = 50"
    by (simp add: daily_allowance_eq rem disp)
  have s: "get_financial_summary now d' = get_financial_summary now ?d1"
    unfolding d' by (rule log_expense_summary) simp
  have disp1: "disposable_of ?d1 = 1500"
    by (simp add: disposable_of_def inc fx gl)
  have allow1: "daily_allowance (get_financial_summary now d') = 50"
    unfolding s by (simp add: daily_allowance_eq rem disp1)
  have spent: "todays_expenses (get_financial_summary now d') = 30"
    unfolding s using none by (simp add: todays_expenses_eq)
  have sav: "todays_savings (get_financial_summary now d') = 20"
    by (simp add: todays_savings_eq allow1 spent)
  have used: "daily_used_percent (get_financial_summary now d') = 60"
    by (simp add: daily_used_percent_eq allow1 spent)
  have inc': "fin_monthly_income (get_financial_summary now d') \<noteq> 0"
    unfolding s by (simp add: fin_income inc)
  have treat': "\<not> daily_treat_given d'"
    unfolding d' using treat by (simp add: log_expense_treat)
  have "mood (get_pet_status d' (get_financial_summary now d')) = ''Happy''"
    using inc' _ _ treat' by (rule get_pet_status_happy) (simp_all add: sav spent)
  with disp allow spent sav used show ?thesis by simp
qed

theorem scenario_allowance_and_happy_witness:
  "disposable_of scenario_ledger = 1500 \<and>
   daily_allowance (get_financial_summary april_first scenario_ledger) = 50 \<and>
   todays_expenses (get_financial_summary april_first
      (snd (log_expense_callback april_first 30 ''Food'' ''lunch'' False scenario_ledger))) = 30 \<and>
   todays_savings (get_financial_summary april_first
      (snd (log_expense_callback april_first 30 ''Food'' ''lunch'' False scenario_ledger))) = 20 \<and>
   daily_used_percent (get_financial_summary april_first
      (snd (log_expense_callback april_first 30 ''Food'' ''lunch'' False scenario_ledger))) = 60 \<and>
   mood (get_pet_status
      (snd (log_expense_callback april_first 30 ''Food'' ''lunch'' False scenario_ledger))
      (get_financial_summary april_first
        (snd (log_expense_callback april_first 30 ''Food'' ''lunch'' False scenario_ledger)))) =
     ''Happy''"
proof (rule scenario_allowance_and_happy)
  show "monthly_income scenario_ledger = 3000"
    by (simp add: scenario_ledger_def)
  show "fixed_expenses scenario_ledger = [(''Rent'', 1000)]"
    by (simp add: scenario_ledger_def)
  show "monthly_savings_goal scenario_ledger = 500"
    by (simp add: scenario_ledger_def)
  show "remaining_days_of april_first = 30"
    by (rule rem_april)
  show "todays_expenses (get_financial_summary april_first scenario_ledger) = 0"
    by (simp add: todays_expenses_eq scenario_ledger_def default_ledger_def)
  show "\<not> daily_treat_given scenario_ledger"
    by (simp add: scenario_ledger_def default_ledger_def)
  show "snd (log_expense_callback april_first 30 ''Food'' ''lunch'' False scenario_ledger) =
        snd (log_expense_callback april_first 30 ''Food'' ''lunch'' False scenario_ledger)"
    by (rule refl)
qed

subsection \<open>Two rewards in one call\<close>

text \<open>
  C10. If \<^verbatim>\<open>check_rewards\<close> runs with a streak of at least 30 while neither
  "Weekly Spa" nor "Monthly Vacation" is unlocked, the one call appends both names, in
  that order, and returns a single name, "Monthly Vacation".
\<close>

theorem check_rewards_both:
  assumes "saving_streak d \<ge> 30"
    and "''Weekly Spa'' \<notin> set (rewards_unlocked d)"
    and "''Monthly Vacation'' \<notin> set (rewards_unlocked d)"
  shows "check_rewards d = (Some ''Monthly Vacation'',
           d\<lparr>rewards_unlocked := rewards_unlocked d @ [''Weekly Spa'', ''Monthly Vacation'']\<rparr>)"
  using assms by (simp add: check_rewards_def)

theorem check_rewards_both_witness:
  "check_rewards both_ledger =
     (Some ''Monthly Vacation'',
      both_ledger\<lparr>rewards_unlocked := [''Weekly Spa'', ''Monthly Vacation'']\<rparr>)"
proof -
  have a: "saving_streak both_ledger \<ge> 30"
    and b: "''Weekly Spa'' \<notin> set (rewards_unlocked both_ledger)"
    and c: "''Monthly Vacation'' \<notin> set (rewards_unlocked both_ledger)"
    and e: "rewards_unlocked both_ledger = []"
    by (simp_all add: both_ledger_def default_ledger_def)
  from check_rewards_both [OF a b c] e show ?thesis by simp
qed

end
